theory Spec2Isabelle
  imports Main
begin

section \<open>Go values shared by the three source files\<close>

text \<open>
  A Go \<^verbatim>\<open>error\<close> value.  \<open>EOF\<close> is \<^verbatim>\<open>io.EOF\<close>; \<open>ErrorString\<close> is what
  \<^verbatim>\<open>errors.New\<close> and a \<^verbatim>\<open>fmt.Errorf\<close> without \<^verbatim>\<open>%w\<close> build; \<open>Wrapped p e\<close> is
  \<^verbatim>\<open>fmt.Errorf(p + "%w", e)\<close>; \<open>HTTPError\<close> is the client's status error.
  A nil error is \<open>None\<close> of \<open>error option\<close>.
\<close>

datatype error =
    EOF
  | ErrorString string
  | Wrapped string error
  | HTTPError int string

text \<open>\<^verbatim>\<open>errors.Is(err, target)\<close>: the chain of wrapped errors is searched for the target.\<close>

fun errors_Is :: "error \<Rightarrow> error \<Rightarrow> bool" where
  "errors_Is (Wrapped p e) t = (Wrapped p e = t \<or> errors_Is e t)"
| "errors_Is e t = (e = t)"

text \<open>
  The result triple of the pull interface \<^verbatim>\<open>Next() (T, bool, error)\<close>, and a method
  \<open>Next\<close> of an iterator whose state has type \<open>'s\<close>: the call returns the triple and
  the state it leaves behind.
\<close>

type_synonym 'a next_result = "'a \<times> bool \<times> error option"

type_synonym ('s, 'a) next_method = "'s \<Rightarrow> 'a next_result \<times> 's"


section \<open>routing/http/types/iter: JSONIter\<close>

text \<open>
  The \<^verbatim>\<open>io.Reader\<close> an iterator is built over.  \<open>content\<close> are its bytes,
  \<open>is_closer\<close> says whether the dynamic type also implements \<^verbatim>\<open>io.Closer\<close>, and
  \<open>closes\<close> counts the calls of \<^verbatim>\<open>Close\<close> it has received.
\<close>

record Reader =
  content :: string
  is_closer :: bool
  closes :: nat

definition Reader_Close :: "Reader \<Rightarrow> Reader" where
  "Reader_Close r = r\<lparr>closes := Suc (closes r)\<rparr>"

text \<open>
  \<^verbatim>\<open>json.Decoder\<close> belongs to the standard library.  It is represented by what its
  successive \<^verbatim>\<open>Decode(&val)\<close> calls will do: each entry is the value left in \<open>val\<close> and
  the error returned.  When the entries are used up the stream has ended and \<open>Decode\<close>
  returns \<^verbatim>\<open>io.EOF\<close> without touching \<open>val\<close>.
\<close>

type_synonym 'a Decoder = "('a \<times> error option) list"

fun Decode :: "'a \<Rightarrow> 'a Decoder \<Rightarrow> ('a \<times> error option) \<times> 'a Decoder" where
  "Decode val [] = ((val, Some EOF), [])"
| "Decode val (r # rest) = (r, rest)"

text \<open>
  The struct \<^verbatim>\<open>JSONIter[T]\<close>.  The field \<^verbatim>\<open>done\<close> is called \<open>done_flag\<close> (\<open>done\<close> is a
  keyword of the proof language).  The field \<^verbatim>\<open>ctx\<close> is not stored: what
  \<^verbatim>\<open>j.ctx.Err()\<close> answers changes between calls, so each call of \<open>Next\<close> receives
  the answer of that moment as its argument \<open>ctxErr\<close>.
\<close>

record 'a JSONIter =
  Decoder :: "'a Decoder"
  Reader :: Reader
  done_flag :: bool

text \<open>\<^verbatim>\<open>FromReaderJSON\<close>; \<open>newDecoder\<close> stands for \<^verbatim>\<open>json.NewDecoder\<close> at type \<open>T\<close>.\<close>

definition FromReaderJSON :: "(string \<Rightarrow> 'a Decoder) \<Rightarrow> Reader \<Rightarrow> 'a JSONIter" where
  "FromReaderJSON newDecoder r =
     \<lparr>Decoder = newDecoder (content r), Reader = r, done_flag = False\<rparr>"

text \<open>The method \<^verbatim>\<open>close\<close> (json.go, lines 51-56).\<close>

definition JSONIter_close :: "'a JSONIter \<Rightarrow> 'a JSONIter" where
  "JSONIter_close j =
     (let j1 = j\<lparr>done_flag := True\<rparr>
      in if is_closer (Reader j1) then j1\<lparr>Reader := Reader_Close (Reader j1)\<rparr> else j1)"

text \<open>
  The method \<^verbatim>\<open>Next\<close> (json.go, lines 26-49).  \<open>zero\<close> is the zero value of \<open>T\<close>
  (\<^verbatim>\<open>var val T\<close>).
\<close>

definition JSONIter_Next :: "'a \<Rightarrow> error option \<Rightarrow> ('a JSONIter, 'a) next_method" where
  "JSONIter_Next zero ctxErr j =
     (if done_flag j then ((zero, False, None), j)
      else
        (case ctxErr of
           Some ce \<Rightarrow> ((zero, True, Some ce), JSONIter_close j)
         | None \<Rightarrow>
             (case Decode zero (Decoder j) of
                ((val, err), d) \<Rightarrow>
                  (let j1 = j\<lparr>Decoder := d\<rparr> in
                   (case err of
                      None \<Rightarrow> ((val, True, None), j1)
                    | Some e \<Rightarrow>
                        if errors_Is e EOF then ((val, False, None), JSONIter_close j1)
                        else ((val, True, Some (Wrapped ''json iterator: '' e)),
                              JSONIter_close j1))))))"

text \<open>
  A caller pulling repeatedly: one call of \<open>Next\<close> per entry of \<open>ctxs\<close>, the entry being
  what the cancellation signal answers at that call.  The results are returned in order
  together with the iterator as the calls leave it.
\<close>

fun JSONIter_calls ::
  "'a \<Rightarrow> error option list \<Rightarrow> 'a JSONIter \<Rightarrow> 'a next_result list \<times> 'a JSONIter" where
  "JSONIter_calls zero [] j = ([], j)"
| "JSONIter_calls zero (c # cs) j =
     (case JSONIter_Next zero c j of
        (r, j1) \<Rightarrow> (case JSONIter_calls zero cs j1 of (rs, j2) \<Rightarrow> (r # rs, j2)))"


section \<open>routing/http/types/iter: SliceIter\<close>

text \<open>
  The struct \<^verbatim>\<open>SliceIter[T]\<close>.  The cursor \<^verbatim>\<open>i\<close> is the field \<open>cursor\<close>; it starts at 0
  and only grows by one while it is below the length, so a natural number holds it.  The
  mutex \<^verbatim>\<open>m\<close> is declared and never locked by the source; it has no field here.
\<close>

record 'a SliceIter =
  Slice :: "'a list"
  cursor :: nat

definition FromSlice :: "'a list \<Rightarrow> 'a SliceIter" where
  "FromSlice s = \<lparr>Slice = s, cursor = 0\<rparr>"

definition SliceIter_Next :: "'a \<Rightarrow> ('a SliceIter, 'a) next_method" where
  "SliceIter_Next zero s =
     (if cursor s \<ge> length (Slice s) then ((zero, False, None), s)
      else ((Slice s ! cursor s, True, None), s\<lparr>cursor := Suc (cursor s)\<rparr>))"


section \<open>routing/http/types: the records the iterators carry\<close>

text \<open>
  The package \<^verbatim>\<open>types\<close> is used by the three source files and declared in none of
  them.  Its structs appear here with the fields the source files read and write.

  Modelled from the spec: the envelope \<^verbatim>\<open>types.UnknownProviderRecord\<close>, whose
  declaration is missing.  The spec's data model gives it a schema discriminator and the
  raw payload bytes, next to the protocol identifier every record has; provider.go reads
  \<^verbatim>\<open>v.Schema\<close> and \<^verbatim>\<open>v.Bytes\<close>.
\<close>

record UnknownProviderRecord =
  Protocol :: string
  Schema :: string
  Bytes :: string

definition zero_UnknownProviderRecord :: UnknownProviderRecord where
  "zero_UnknownProviderRecord = \<lparr>Protocol = [], Schema = [], Bytes = []\<rparr>"

text \<open>
  Modelled from the spec: the constant \<^verbatim>\<open>types.SchemaBitswap\<close>, whose declaration is
  missing; the spec names the one known discriminator "bitswap/transport".  The general
  theorems below hold for any value of this string; only the concrete inputs read its
  characters.
\<close>

definition SchemaBitswap :: string where
  "SchemaBitswap = ''bitswap/transport''"

text \<open>
  Modelled from the spec: \<^verbatim>\<open>types.ReadBitswapProviderRecord\<close>, the bitswap variant of a
  provider response (protocol, schema, peer identity, multiaddresses).
\<close>

record ReadBitswapProviderRecord =
  rb_Protocol :: string
  rb_Schema :: string
  rb_ID :: string
  rb_Addrs :: "string list"

text \<open>
  \<^verbatim>\<open>types.BitswapPayload\<close> and \<^verbatim>\<open>types.WriteBitswapProviderRecord\<close>, with the fields
  \<^verbatim>\<open>ProvideBitswap\<close> fills in (part_000, lines 199-209) and the signature the signing
  step adds.  Durations and times are integers (nanoseconds); the pointers
  \<^verbatim>\<open>*types.Duration\<close>, \<^verbatim>\<open>*types.Time\<close> and \<^verbatim>\<open>*peer.ID\<close> are options.
\<close>

record BitswapPayload =
  Keys :: "string list"
  pl_AdvisoryTTL :: "int option"
  Timestamp :: "int option"
  ID :: "string option"
  Addrs :: "string list"

record WriteBitswapProviderRecord =
  wb_Protocol :: string
  wb_Schema :: string
  Payload :: BitswapPayload
  Signature :: string

text \<open>
  \<^verbatim>\<open>types.WriteBitswapProviderRecordResponse\<close>: part_000 (lines 261-268) reads its
  field \<^verbatim>\<open>AdvisoryTTL\<close>, a pointer that may be nil, and the \<^verbatim>\<open>Duration\<close> under it.
\<close>

record WriteBitswapProviderRecordResponse =
  wr_Protocol :: string
  wr_Schema :: string
  AdvisoryTTL :: "int option"

text \<open>
  The interfaces \<^verbatim>\<open>types.ProviderResponse\<close> and \<^verbatim>\<open>types.WriteProviderRecord\<close> as
  the sums of the pointer types the source stores in them.  A nil interface value is
  \<open>None\<close> of the option type.
\<close>

datatype ProviderResponse =
    ReadBitswap ReadBitswapProviderRecord
  | WriteBitswapResponse WriteBitswapProviderRecordResponse
  | UnknownResponse UnknownProviderRecord

datatype WriteProviderRecord =
    WriteBitswap WriteBitswapProviderRecord
  | UnknownWrite UnknownProviderRecord


section \<open>routing/http/types/ndjson: the schema-dispatching iterators\<close>

text \<open>
  Each of the three structs holds one field \<^verbatim>\<open>iter\<close> of the interface type
  \<^verbatim>\<open>iter.Iter[types.UnknownProviderRecord]\<close>.  An interface value is an object and its
  method: the field holds the object's state \<open>'s\<close>, and the method \<open>Next\<close> of that object
  is the argument \<open>inner_Next\<close> of the wrapper's own \<open>Next\<close>.  \<open>unmarshal\<close> is
  \<^verbatim>\<open>json.Unmarshal\<close> into the concrete record of the variant.
\<close>

record 's readProvidersResponseIter =
  iter :: 's

definition readProvidersResponseIter_Next ::
  "(string \<Rightarrow> error + ReadBitswapProviderRecord) \<Rightarrow>
   ('s, UnknownProviderRecord) next_method \<Rightarrow>
   ('s readProvidersResponseIter, ProviderResponse option) next_method" where
  "readProvidersResponseIter_Next unmarshal inner_Next p =
     (case inner_Next (readProvidersResponseIter.iter p) of
        ((v, ok, err), s) \<Rightarrow>
          (let p1 = p\<lparr>readProvidersResponseIter.iter := s\<rparr> in
           if \<not> ok then ((None, False, None), p1)
           else
             (case err of
                Some e \<Rightarrow> ((None, False, Some e), p1)
              | None \<Rightarrow>
                  if Schema v = SchemaBitswap then
                    (case unmarshal (Bytes v) of
                       Inl e \<Rightarrow> ((None, False, Some e), p1)
                     | Inr prov \<Rightarrow> ((Some (ReadBitswap prov), True, None), p1))
                  else ((Some (UnknownResponse v), True, None), p1))))"

record 's writeProvidersRequestIter =
  iter :: 's

definition writeProvidersRequestIter_Next ::
  "(string \<Rightarrow> error + WriteBitswapProviderRecord) \<Rightarrow>
   ('s, UnknownProviderRecord) next_method \<Rightarrow>
   ('s writeProvidersRequestIter, WriteProviderRecord option) next_method" where
  "writeProvidersRequestIter_Next unmarshal inner_Next p =
     (case inner_Next (writeProvidersRequestIter.iter p) of
        ((v, ok, err), s) \<Rightarrow>
          (let p1 = p\<lparr>writeProvidersRequestIter.iter := s\<rparr> in
           if \<not> ok then ((None, False, None), p1)
           else
             (case err of
                Some e \<Rightarrow> ((None, False, Some e), p1)
              | None \<Rightarrow>
                  if Schema v = SchemaBitswap then
                    (case unmarshal (Bytes v) of
                       Inl e \<Rightarrow> ((None, False, Some e), p1)
                     | Inr prov \<Rightarrow> ((Some (WriteBitswap prov), True, None), p1))
                  else ((Some (UnknownWrite v), True, None), p1))))"

record 's writeProvidersResponseIter =
  iter :: 's

definition writeProvidersResponseIter_Next ::
  "(string \<Rightarrow> error + WriteBitswapProviderRecordResponse) \<Rightarrow>
   ('s, UnknownProviderRecord) next_method \<Rightarrow>
   ('s writeProvidersResponseIter, ProviderResponse option) next_method" where
  "writeProvidersResponseIter_Next unmarshal inner_Next p =
     (case inner_Next (writeProvidersResponseIter.iter p) of
        ((v, ok, err), s) \<Rightarrow>
          (let p1 = p\<lparr>writeProvidersResponseIter.iter := s\<rparr> in
           if \<not> ok then ((None, False, None), p1)
           else
             (case err of
                Some e \<Rightarrow> ((None, False, Some e), p1)
              | None \<Rightarrow>
                  if Schema v = SchemaBitswap then
                    (case unmarshal (Bytes v) of
                       Inl e \<Rightarrow> ((None, False, Some e), p1)
                     | Inr prov \<Rightarrow> ((Some (WriteBitswapResponse prov), True, None), p1))
                  else ((Some (UnknownResponse v), True, None), p1))))"

text \<open>
  The three constructors put a \<open>JSONIter\<close> over the reader into the field
  (provider.go, lines 16-18, 41-43 and 70-72).
\<close>

definition NewReadProvidersResponseIter ::
  "(string \<Rightarrow> UnknownProviderRecord Decoder) \<Rightarrow> Reader \<Rightarrow>
   UnknownProviderRecord JSONIter readProvidersResponseIter" where
  "NewReadProvidersResponseIter newDecoder r =
     \<lparr>readProvidersResponseIter.iter = FromReaderJSON newDecoder r\<rparr>"

definition NewWriteProvidersRequestIter ::
  "(string \<Rightarrow> UnknownProviderRecord Decoder) \<Rightarrow> Reader \<Rightarrow>
   UnknownProviderRecord JSONIter writeProvidersRequestIter" where
  "NewWriteProvidersRequestIter newDecoder r =
     \<lparr>writeProvidersRequestIter.iter = FromReaderJSON newDecoder r\<rparr>"

definition NewWriteProvidersResponseIter ::
  "(string \<Rightarrow> UnknownProviderRecord Decoder) \<Rightarrow> Reader \<Rightarrow>
   UnknownProviderRecord JSONIter writeProvidersResponseIter" where
  "NewWriteProvidersResponseIter newDecoder r =
     \<lparr>writeProvidersResponseIter.iter = FromReaderJSON newDecoder r\<rparr>"

text \<open>
  The read iterator over the stream iterator it is constructed with, as the client's
  callers pull from it: \<open>ctxErr\<close> is the answer of the cancellation signal at this call.
\<close>

definition readProviders_Next ::
  "(string \<Rightarrow> error + ReadBitswapProviderRecord) \<Rightarrow> error option \<Rightarrow>
   (UnknownProviderRecord JSONIter readProvidersResponseIter, ProviderResponse option) next_method"
  where
  "readProviders_Next unmarshal ctxErr =
     readProvidersResponseIter_Next unmarshal (JSONIter_Next zero_UnknownProviderRecord ctxErr)"


section \<open>The routing client (src/unnamed/part_000)\<close>

subsection \<open>HTTP values and the collaborators the client consumes\<close>

record http_request =
  req_method :: string
  req_url :: string
  req_body :: "string option"

text \<open>
  \<^verbatim>\<open>*http.Response\<close>: the status code, the value of \<^verbatim>\<open>resp.Header.Get("Content-Type")\<close>
  and the body, a reader that can be closed.
\<close>

record http_response =
  StatusCode :: int
  ContentType :: string
  Body :: Reader

text \<open>The interface \<^verbatim>\<open>httpClient\<close>: its one method \<^verbatim>\<open>Do\<close>.\<close>

type_synonym httpClient = "http_request \<Rightarrow> error + http_response"

datatype PrivKey = PrivKey string

datatype PubKey = PubKey string

text \<open>\<^verbatim>\<open>jsontypes.WriteProvidersRequest\<close>, built at line 229.\<close>

record WriteProvidersRequest =
  Providers :: "WriteProviderRecord list"

text \<open>
  What the client calls and does not define: the standard library (\<^verbatim>\<open>net/http\<close>,
  \<^verbatim>\<open>mime\<close>, \<^verbatim>\<open>encoding/json\<close>), libp2p's keys and peer ids, the clock, the record's
  \<^verbatim>\<open>Sign\<close> method, \<^verbatim>\<open>drjson.MarshalJSONBytes\<close> and the JSON shapes of package
  \<^verbatim>\<open>jsontypes\<close>.  Every function below takes them as the record \<open>ext\<close>, so each
  theorem holds for whatever these collaborators answer.  \<open>decodeReadProvidersResponse\<close>
  is \<^verbatim>\<open>json.NewDecoder(body).Decode(parsedResp)\<close> at line 169: the providers it left
  in \<open>parsedResp\<close> and its error.  \<open>readErrorBody\<close> is what \<^verbatim>\<open>httpError\<close> reads from
  the body it is handed.
\<close>

record externals =
  NewRequestWithContext :: "string \<Rightarrow> string \<Rightarrow> string option \<Rightarrow> error + http_request"
  defaultHTTPClient :: httpClient
  ParseMediaType :: "string \<Rightarrow> error + string"
  decodeReadProvidersResponse :: "string \<Rightarrow> ProviderResponse option list \<times> error option"
  newEnvelopeDecoder :: "string \<Rightarrow> UnknownProviderRecord Decoder"
  clock_Now :: int
  Sign :: "WriteBitswapProviderRecord \<Rightarrow> string \<Rightarrow> PrivKey \<Rightarrow> error + WriteBitswapProviderRecord"
  MarshalJSONBytes :: "WriteProvidersRequest \<Rightarrow> error + string"
  decodeWriteProvidersResponse :: "string \<Rightarrow> error + ProviderResponse option list"
  readErrorBody :: "Reader \<Rightarrow> string"
  GetPublic :: "PrivKey \<Rightarrow> PubKey"
  MatchesPublicKey :: "string \<Rightarrow> PubKey \<Rightarrow> bool"

text \<open>
  What a call of the client does to the world outside its return value: the HTTP
  requests handed to \<^verbatim>\<open>httpClient.Do\<close> (oldest first), the number of calls of
  \<^verbatim>\<open>Sign\<close>, and the number of response bodies the client closed itself.
\<close>

record world =
  requests :: "http_request list"
  sign_calls :: nat
  body_closes :: nat

definition close_body :: "world \<Rightarrow> world" where
  "close_body w = w\<lparr>body_closes := Suc (body_closes w)\<rparr>"

abbreviation mediaTypeJSON :: string where
  "mediaTypeJSON \<equiv> ''application/json''"

abbreviation mediaTypeNDJSON :: string where
  "mediaTypeNDJSON \<equiv> ''application/x-ndjson''"

abbreviation StatusOK :: int where
  "StatusOK \<equiv> 200"

abbreviation StatusNotFound :: int where
  "StatusNotFound \<equiv> 404"

text \<open>
  Modelled from the spec: the constant \<^verbatim>\<open>server.ProvidePath\<close>, whose declaration is
  missing; the spec gives the lookup path as \<^verbatim>\<open>{base}/routing/v1/providers/{cid}\<close>.
\<close>

definition ProvidePath :: string where
  "ProvidePath = ''/routing/v1/providers/''"

text \<open>
  Modelled from the spec: the helper \<^verbatim>\<open>httpError\<close>, whose body is missing.  The spec
  says it gives "an error carrying status code and response-derived message".
\<close>

definition httpError :: "externals \<Rightarrow> int \<Rightarrow> Reader \<Rightarrow> error" where
  "httpError ext statusCode body = HTTPError statusCode (readErrorBody ext body)"

text \<open>\<^verbatim>\<open>peer.ID\<close> is a Go string and \<^verbatim>\<open>Size\<close> its length in bytes.\<close>

definition peerID_Size :: "string \<Rightarrow> nat" where
  "peerID_Size p = length p"

text \<open>The verb \<^verbatim>\<open>%d\<close> of \<^verbatim>\<open>fmt\<close> on a length: decimal digits, no sign, no padding.\<close>

definition digit :: "nat \<Rightarrow> char" where
  "digit d = ''0123456789'' ! d"

fun fmt_d :: "nat \<Rightarrow> string" where
  "fmt_d n = (if n < 10 then [digit n] else fmt_d (n div 10) @ [digit (n mod 10)])"

declare fmt_d.simps [simp del]


subsection \<open>The client and its construction\<close>

text \<open>
  The struct \<^verbatim>\<open>client\<close>.  The fields \<^verbatim>\<open>validator\<close> and \<^verbatim>\<open>clock\<close> are set once by
  \<^verbatim>\<open>New\<close> and by no option; the validator is not used in this file and the clock is
  read through \<open>clock_Now\<close>.  \<^verbatim>\<open>afterSignCallback\<close> receives a pointer to the signed
  record and may change it: a function from the record to the record it leaves.
\<close>

record client =
  baseURL :: string
  httpClient :: httpClient
  accepts :: string
  peerID :: string
  addrs :: "string list"
  identity :: "PrivKey option"
  afterSignCallback :: "(WriteBitswapProviderRecord \<Rightarrow> WriteBitswapProviderRecord) option"

text \<open>
  The type \<^verbatim>\<open>option\<close> (a function on the client) with the four functions that build
  one (lines 64-89).
\<close>

datatype client_option =
    WithIdentity "PrivKey option"
  | WithHTTPClient httpClient
  | WithProviderInfo string "string list"
  | WithStreamResultsRequired

fun apply_option :: "client_option \<Rightarrow> client \<Rightarrow> client" where
  "apply_option (WithIdentity k) c = c\<lparr>identity := k\<rparr>"
| "apply_option (WithHTTPClient h) c = c\<lparr>httpClient := h\<rparr>"
| "apply_option (WithProviderInfo p as) c = c\<lparr>peerID := p, addrs := addrs c @ as\<rparr>"
| "apply_option WithStreamResultsRequired c = c\<lparr>accepts := mediaTypeJSON\<rparr>"

text \<open>The client \<^verbatim>\<open>New\<close> starts from (lines 100-106) and the loop over the options.\<close>

definition default_client :: "externals \<Rightarrow> string \<Rightarrow> client" where
  "default_client ext url =
     \<lparr>baseURL = url, httpClient = defaultHTTPClient ext,
      accepts = mediaTypeNDJSON @ '','' @ mediaTypeJSON,
      peerID = [], addrs = [], identity = None, afterSignCallback = None\<rparr>"

definition apply_options :: "client_option list \<Rightarrow> client \<Rightarrow> client" where
  "apply_options opts c = foldl (\<lambda>c1 opt. apply_option opt c1) c opts"

definition New :: "externals \<Rightarrow> string \<Rightarrow> client_option list \<Rightarrow> client option \<times> error option" where
  "New ext url opts =
     (let c = apply_options opts (default_client ext url) in
      if (case identity c of
            None \<Rightarrow> False
          | Some k \<Rightarrow>
              peerID_Size (peerID c) \<noteq> 0 \<and>
              \<not> MatchesPublicKey ext (peerID c) (GetPublic ext k))
      then (None, Some (ErrorString ''identity does not match provider''))
      else (Some c, None))"


subsection \<open>FindProviders\<close>

text \<open>
  The interface value \<^verbatim>\<open>iter.Iter[types.ProviderResponse]\<close> that \<^verbatim>\<open>FindProviders\<close>
  returns: one of the two iterators it constructs, or nil (\<open>None\<close>).
\<close>

datatype provs_iter =
    SliceIterOf "ProviderResponse option SliceIter"
  | ReadProvidersIterOf "UnknownProviderRecord JSONIter readProvidersResponseIter"

text \<open>
  \<^verbatim>\<open>FindProviders\<close> (lines 119-182).  The measurement (lines 120-127, 135-147) is
  telemetry written to a collaborator that is not in the source files; it reads the
  results and changes none, and is left out.
\<close>

definition FindProviders ::
  "externals \<Rightarrow> client \<Rightarrow> string \<Rightarrow> world \<Rightarrow> (provs_iter option \<times> error option) \<times> world" where
  "FindProviders ext c key w =
     (let url = baseURL c @ ProvidePath @ key in
      case NewRequestWithContext ext ''GET'' url None of
        Inl err \<Rightarrow> ((None, Some err), w)
      | Inr req \<Rightarrow>
          (let w1 = w\<lparr>requests := requests w @ [req]\<rparr> in
           case httpClient c req of
             Inl err \<Rightarrow> ((None, Some err), w1)
           | Inr resp \<Rightarrow>
               if StatusCode resp = StatusNotFound then ((None, None), close_body w1)
               else if StatusCode resp \<noteq> StatusOK then
                 ((None, Some (httpError ext (StatusCode resp) (Reader_Close (Body resp)))),
                  close_body w1)
               else
                 (case ParseMediaType ext (ContentType resp) of
                    Inl err \<Rightarrow>
                      ((None, Some (Wrapped ''parsing Content-Type: '' err)), close_body w1)
                  | Inr mediaType \<Rightarrow>
                      if mediaType = mediaTypeJSON then
                        (case decodeReadProvidersResponse ext (content (Body resp)) of
                           (providers, err) \<Rightarrow>
                             ((Some (SliceIterOf (FromSlice providers)), err), close_body w1))
                      else if mediaType = mediaTypeNDJSON then
                        ((Some (ReadProvidersIterOf
                                  (NewReadProvidersResponseIter (newEnvelopeDecoder ext)
                                     (Body resp))),
                          None), w1)
                      else ((None, Some (ErrorString ''unknown content type'')),
                            close_body w1))))"

text \<open>
  A caller's \<^verbatim>\<open>provs.Next()\<close> on the returned interface value.  Go dispatches on the
  dynamic type; on a nil interface value the call panics with a nil pointer dereference
  and returns nothing.
\<close>

datatype panic = NilPointerDereference

definition provs_Next ::
  "(string \<Rightarrow> error + ReadBitswapProviderRecord) \<Rightarrow> error option \<Rightarrow> provs_iter option \<Rightarrow>
   panic + (ProviderResponse option next_result \<times> provs_iter)" where
  "provs_Next unmarshal ctxErr provs =
     (case provs of
        None \<Rightarrow> Inl NilPointerDereference
      | Some (SliceIterOf s) \<Rightarrow>
          (case SliceIter_Next None s of (r, s1) \<Rightarrow> Inr (r, SliceIterOf s1))
      | Some (ReadProvidersIterOf p) \<Rightarrow>
          (case readProviders_Next unmarshal ctxErr p of
             (r, p1) \<Rightarrow> Inr (r, ReadProvidersIterOf p1)))"


subsection \<open>ProvideBitswap\<close>

text \<open>The record \<^verbatim>\<open>ProvideBitswap\<close> builds before signing (lines 192-209).\<close>

definition bitswap_record :: "externals \<Rightarrow> client \<Rightarrow> string list \<Rightarrow> int \<Rightarrow> WriteBitswapProviderRecord" where
  "bitswap_record ext c keys ttl =
     \<lparr>wb_Protocol = ''transport-bitswap'', wb_Schema = SchemaBitswap,
      Payload = \<lparr>Keys = keys, pl_AdvisoryTTL = Some ttl, Timestamp = Some (clock_Now ext),
                 ID = Some (peerID c), Addrs = addrs c\<rparr>,
      Signature = []\<rparr>"

text \<open>
  \<^verbatim>\<open>provideSignedBitswapRecord\<close> (lines 228-271).  The deferred
  \<^verbatim>\<open>resp.Body.Close()\<close> runs on every return after line 247.
\<close>

definition provideSignedBitswapRecord ::
  "externals \<Rightarrow> client \<Rightarrow> WriteBitswapProviderRecord \<Rightarrow> world \<Rightarrow> (int \<times> error option) \<times> world" where
  "provideSignedBitswapRecord ext c bswp w =
     (let req = \<lparr>Providers = [WriteBitswap bswp]\<rparr>;
          url = baseURL c @ ProvidePath
      in
      case MarshalJSONBytes ext req of
        Inl err \<Rightarrow> ((0, Some err), w)
      | Inr b \<Rightarrow>
          (case NewRequestWithContext ext ''POST'' url (Some b) of
             Inl err \<Rightarrow> ((0, Some err), w)
           | Inr httpReq \<Rightarrow>
               (let w1 = w\<lparr>requests := requests w @ [httpReq]\<rparr> in
                case httpClient c httpReq of
                  Inl err \<Rightarrow>
                    ((0, Some (Wrapped ''making HTTP req to provide a signed record: '' err)), w1)
                | Inr resp \<Rightarrow>
                    (let w2 = close_body w1 in
                     if StatusCode resp \<noteq> StatusOK then
                       ((0, Some (httpError ext (StatusCode resp) (Body resp))), w2)
                     else
                       (case decodeWriteProvidersResponse ext (content (Body resp)) of
                          Inl err \<Rightarrow> ((0, Some err), w2)
                        | Inr ProvideResults \<Rightarrow>
                            if length ProvideResults \<noteq> 1 then
                              ((0, Some (ErrorString (''expected 1 result but got '' @
                                                       fmt_d (length ProvideResults)))), w2)
                            else
                              (case ProvideResults ! 0 of
                                 Some (WriteBitswapResponse v) \<Rightarrow>
                                   (case AdvisoryTTL v of
                                      Some d \<Rightarrow> ((d, None), w2)
                                    | None \<Rightarrow> ((0, None), w2))
                               | _ \<Rightarrow>
                                   ((0, Some (ErrorString ''expected AdvisoryTTL field'')),
                                    w2)))))))"

text \<open>\<^verbatim>\<open>ProvideBitswap\<close> (lines 184-225).\<close>

definition ProvideBitswap ::
  "externals \<Rightarrow> client \<Rightarrow> string list \<Rightarrow> int \<Rightarrow> world \<Rightarrow> (int \<times> error option) \<times> world" where
  "ProvideBitswap ext c keys ttl w =
     (case identity c of
        None \<Rightarrow>
          ((0, Some (ErrorString ''cannot provide Bitswap records without an identity'')), w)
      | Some k \<Rightarrow>
          if peerID_Size (peerID c) = 0 then
            ((0, Some (ErrorString ''cannot provide Bitswap records without a peer ID'')), w)
          else
            (let req = bitswap_record ext c keys ttl;
                 w1 = w\<lparr>sign_calls := Suc (sign_calls w)\<rparr>
             in
             case Sign ext req (peerID c) k of
               Inl err \<Rightarrow> ((0, Some err), w1)
             | Inr signed \<Rightarrow>
                 (let req1 = (case afterSignCallback c of None \<Rightarrow> signed | Some f \<Rightarrow> f signed)
                  in
                  case provideSignedBitswapRecord ext c req1 w1 of
                    ((advisoryTTL, err), w2) \<Rightarrow>
                      (case err of
                         Some e \<Rightarrow> ((0, Some e), w2)
                       | None \<Rightarrow> ((advisoryTTL, None), w2)))))"


section \<open>Concrete inputs\<close>

text \<open>
  A stream of two numbers behind a reader that can be closed, and the iterator
  \<^verbatim>\<open>FromReaderJSON\<close> builds over it.
\<close>

definition ex_reader :: Reader where
  "ex_reader = \<lparr>content = ''1 2'', is_closer = True, closes = 0\<rparr>"

definition ex_iter :: "nat JSONIter" where
  "ex_iter = \<lparr>Decoder = [(1, None), (2, None)], Reader = ex_reader, done_flag = False\<rparr>"

text \<open>
  Three envelopes as the stream iterator delivers them: one of an unknown schema, one of
  the bitswap schema whose payload does not decode, and one whose payload does; the
  \<^verbatim>\<open>json.Unmarshal\<close> that tells the two payloads apart; and the stream iterator over a
  body that delivers the given envelopes.
\<close>

definition ex_unknown :: UnknownProviderRecord where
  "ex_unknown =
     \<lparr>Protocol = ''transport-foo'', Schema = ''foo'', Bytes = ''{Schema:foo,Extra:1}''\<rparr>"

definition ex_bitswap_bad :: UnknownProviderRecord where
  "ex_bitswap_bad =
     \<lparr>Protocol = ''transport-bitswap'', Schema = SchemaBitswap,
      Bytes = ''{Schema:bitswap,ID:12}''\<rparr>"

definition ex_bitswap_ok :: UnknownProviderRecord where
  "ex_bitswap_ok =
     \<lparr>Protocol = ''transport-bitswap'', Schema = SchemaBitswap,
      Bytes = ''{Schema:bitswap,ID:peer1}''\<rparr>"

definition ex_read_record :: ReadBitswapProviderRecord where
  "ex_read_record =
     \<lparr>rb_Protocol = ''transport-bitswap'', rb_Schema = SchemaBitswap, rb_ID = ''peer1'',
      rb_Addrs = []\<rparr>"

definition ex_unmarshal :: "string \<Rightarrow> error + ReadBitswapProviderRecord" where
  "ex_unmarshal b =
     (if b = ''{Schema:bitswap,ID:peer1}'' then Inr ex_read_record
      else Inl (ErrorString ''invalid peer id''))"

definition ex_body :: Reader where
  "ex_body = \<lparr>content = ''(ndjson)'', is_closer = True, closes = 0\<rparr>"

definition ex_stream_of :: "UnknownProviderRecord list \<Rightarrow> UnknownProviderRecord JSONIter" where
  "ex_stream_of vs =
     \<lparr>Decoder = map (\<lambda>v. (v, None)) vs, Reader = ex_body, done_flag = False\<rparr>"

text \<open>
  The stream the dispatching iterator is followed on below: a bitswap envelope whose
  payload does not decode, then an envelope of an unknown schema.  And an inner iterator
  of another kind, which answers every call with \<open>hasMore = false\<close> and an error.
\<close>

definition ex_stream :: "UnknownProviderRecord JSONIter" where
  "ex_stream = ex_stream_of [ex_bitswap_bad, ex_unknown]"

definition ex_broken_inner :: "(nat, UnknownProviderRecord) next_method" where
  "ex_broken_inner n = ((zero_UnknownProviderRecord, False, Some (ErrorString ''lost'')), Suc n)"

text \<open>
  Collaborators for the client: requests are always built; a media type is the header
  value itself; signing fills in the signature; a key matches the peer id it is named
  after; a body that has been closed yields no bytes for an error message; a batch body
  decodes into no provider or one; the body of a provide response decodes by its content into no result, one bitswap result with or
  without a TTL, one result of an unknown schema, or two results.
\<close>

definition ex_response_of :: "string \<Rightarrow> error + ProviderResponse option list" where
  "ex_response_of b =
     (if b = ''ttl'' then
        Inr [Some (WriteBitswapResponse
               \<lparr>wr_Protocol = ''transport-bitswap'', wr_Schema = SchemaBitswap,
                AdvisoryTTL = Some 86400000000000\<rparr>)]
      else if b = ''nottl'' then
        Inr [Some (WriteBitswapResponse
               \<lparr>wr_Protocol = ''transport-bitswap'', wr_Schema = SchemaBitswap,
                AdvisoryTTL = None\<rparr>)]
      else if b = ''unknown'' then Inr [Some (UnknownResponse ex_unknown)]
      else if b = ''two'' then
        Inr [Some (UnknownResponse ex_unknown), Some (UnknownResponse ex_unknown)]
      else if b = ''none'' then Inr []
      else Inl (ErrorString ''unexpected end of JSON input''))"

definition ex_ext :: externals where
  "ex_ext =
     \<lparr>NewRequestWithContext = (\<lambda>m u b. Inr \<lparr>req_method = m, req_url = u, req_body = b\<rparr>),
      defaultHTTPClient = (\<lambda>req. Inl (ErrorString ''connection refused'')),
      ParseMediaType = (\<lambda>h. Inr h),
      decodeReadProvidersResponse =
        (\<lambda>b. if b = ''{Providers:[]}'' then ([], None)
             else ([Some (UnknownResponse ex_unknown)], None)),
      newEnvelopeDecoder = (\<lambda>b. [(ex_unknown, None)]),
      clock_Now = 1700000000,
      Sign = (\<lambda>r p k. Inr (r\<lparr>Signature := ''signed''\<rparr>)),
      MarshalJSONBytes = (\<lambda>r. Inr ''{Providers:[1]}''),
      decodeWriteProvidersResponse = ex_response_of,
      readErrorBody = (\<lambda>r. if closes r = 0 then content r else []),
      GetPublic = (\<lambda>k. case k of PrivKey n \<Rightarrow> PubKey n),
      MatchesPublicKey = (\<lambda>p k. k = PubKey p)\<rparr>"

text \<open>A server that answers every request with the given status, header and body.\<close>

definition ex_server :: "int \<Rightarrow> string \<Rightarrow> string \<Rightarrow> httpClient" where
  "ex_server status ctype body =
     (\<lambda>req. Inr \<lparr>StatusCode = status, ContentType = ctype,
                  Body = \<lparr>content = body, is_closer = True, closes = 0\<rparr>\<rparr>)"

text \<open>
  A client with the identity and peer id of alice talking to such a server, and the
  world before any call.
\<close>

definition ex_client :: "httpClient \<Rightarrow> client" where
  "ex_client h =
     \<lparr>baseURL = ''http://router'', httpClient = h,
      accepts = mediaTypeNDJSON @ '','' @ mediaTypeJSON,
      peerID = ''alice'', addrs = [], identity = Some (PrivKey ''alice''),
      afterSignCallback = None\<rparr>"

definition ex_world :: world where
  "ex_world = \<lparr>requests = [], sign_calls = 0, body_closes = 0\<rparr>"


section \<open>Theorems\<close>

subsection \<open>The stream iterator\<close>

lemma JSONIter_close_simps:
  "done_flag (JSONIter_close j)"
  "Decoder (JSONIter_close j) = Decoder j"
  "is_closer (Reader (JSONIter_close j)) = is_closer (Reader j)"
  "content (Reader (JSONIter_close j)) = content (Reader j)"
  "closes (Reader (JSONIter_close j)) =
     (if is_closer (Reader j) then Suc (closes (Reader j)) else closes (Reader j))"
  by (simp_all add: JSONIter_close_def Reader_Close_def Let_def)

lemma JSONIter_Next_done:
  "done_flag j \<Longrightarrow> JSONIter_Next zero ctxErr j = ((zero, False, None), j)"
  by (simp add: JSONIter_Next_def)

text \<open>
  Claim C5.  A call of \<open>Next\<close> that finds the cancellation signal set attempts no decode:
  the decoder is left as it was, whatever the state of the iterator.  On an iterator
  that has not terminated the call returns the cancellation error itself (with the zero
  value and \<open>hasMore = true\<close>), marks the iterator done and closes the reader when it is a
  closer.  (An iterator that is already done has released its stream in an earlier call
  and returns before the check, at lines 29-31.)
\<close>

theorem JSONIter_Next_cancelled:
  "Decoder (snd (JSONIter_Next zero (Some ce) j)) = Decoder j \<and>
   done_flag (snd (JSONIter_Next zero (Some ce) j)) \<and>
   (\<not> done_flag j \<longrightarrow>
      fst (JSONIter_Next zero (Some ce) j) = (zero, True, Some ce) \<and>
      snd (JSONIter_Next zero (Some ce) j) = JSONIter_close j \<and>
      closes (Reader (snd (JSONIter_Next zero (Some ce) j))) =
        (if is_closer (Reader j) then Suc (closes (Reader j)) else closes (Reader j)))"
  by (simp add: JSONIter_Next_def JSONIter_close_simps)

theorem JSONIter_Next_cancelled_witness:
  "\<not> done_flag ex_iter \<and>
   fst (JSONIter_Next 0 (Some (ErrorString ''context canceled'')) ex_iter) =
     (0, True, Some (ErrorString ''context canceled'')) \<and>
   done_flag (snd (JSONIter_Next 0 (Some (ErrorString ''context canceled'')) ex_iter)) \<and>
   Decoder (snd (JSONIter_Next 0 (Some (ErrorString ''context canceled'')) ex_iter)) =
     [(1, None), (2, None)] \<and>
   closes (Reader (snd (JSONIter_Next 0 (Some (ErrorString ''context canceled'')) ex_iter))) = 1"
  using JSONIter_Next_cancelled [of 0 "ErrorString ''context canceled''" ex_iter]
  by (simp add: ex_iter_def ex_reader_def JSONIter_close_simps)

subsection \<open>The schema-dispatching iterators\<close>

lemma ex_stream_of_Next:
  "JSONIter_Next zero_UnknownProviderRecord None (ex_stream_of (v # vs)) =
     ((v, True, None), ex_stream_of vs)"
  by (simp add: JSONIter_Next_def ex_stream_of_def)

lemma ex_schemas:
  "Schema ex_unknown \<noteq> SchemaBitswap"
  "Schema ex_bitswap_bad = SchemaBitswap"
  "Schema ex_bitswap_ok = SchemaBitswap"
  by (simp_all add: ex_unknown_def ex_bitswap_bad_def ex_bitswap_ok_def SchemaBitswap_def)

lemma ex_unmarshal_values:
  "ex_unmarshal (Bytes ex_bitswap_bad) = Inl (ErrorString ''invalid peer id'')"
  "ex_unmarshal (Bytes ex_bitswap_ok) = Inr ex_read_record"
  by (simp_all add: ex_bitswap_bad_def ex_bitswap_ok_def ex_unmarshal_def)

text \<open>
  The dispatch on the discriminator, which holds for every envelope.  When the inner
  iterator hands one of the three schema-dispatching iterators an envelope \<open>v\<close> (a value, \<open>hasMore = true\<close>, no error): if the discriminator of \<open>v\<close> is
  the bitswap schema, the raw payload \<open>Bytes v\<close> is decoded into the concrete bitswap
  record of that iterator and returned as the sum type, and a payload that does not
  decode is returned as the error of that pull; for every other discriminator the
  fallback variant is returned holding \<open>v\<close> itself, so its discriminator and its payload
  bytes are those of the envelope, with \<open>hasMore = true\<close> and no error.
\<close>

lemma schema_dispatch:
  assumes "inner_Next s = ((v, True, None), s1)"
  shows
    "(Schema v = SchemaBitswap \<longrightarrow>
        (\<forall>prov. um_read (Bytes v) = Inr prov \<longrightarrow>
           readProvidersResponseIter_Next um_read inner_Next
             \<lparr>readProvidersResponseIter.iter = s\<rparr> =
             ((Some (ReadBitswap prov), True, None), \<lparr>readProvidersResponseIter.iter = s1\<rparr>)) \<and>
        (\<forall>e. um_read (Bytes v) = Inl e \<longrightarrow>
           readProvidersResponseIter_Next um_read inner_Next
             \<lparr>readProvidersResponseIter.iter = s\<rparr> =
             ((None, False, Some e), \<lparr>readProvidersResponseIter.iter = s1\<rparr>)) \<and>
        (\<forall>prov. um_write (Bytes v) = Inr prov \<longrightarrow>
           writeProvidersRequestIter_Next um_write inner_Next
             \<lparr>writeProvidersRequestIter.iter = s\<rparr> =
             ((Some (WriteBitswap prov), True, None), \<lparr>writeProvidersRequestIter.iter = s1\<rparr>)) \<and>
        (\<forall>e. um_write (Bytes v) = Inl e \<longrightarrow>
           writeProvidersRequestIter_Next um_write inner_Next
             \<lparr>writeProvidersRequestIter.iter = s\<rparr> =
             ((None, False, Some e), \<lparr>writeProvidersRequestIter.iter = s1\<rparr>)) \<and>
        (\<forall>prov. um_resp (Bytes v) = Inr prov \<longrightarrow>
           writeProvidersResponseIter_Next um_resp inner_Next
             \<lparr>writeProvidersResponseIter.iter = s\<rparr> =
             ((Some (WriteBitswapResponse prov), True, None),
              \<lparr>writeProvidersResponseIter.iter = s1\<rparr>)) \<and>
        (\<forall>e. um_resp (Bytes v) = Inl e \<longrightarrow>
           writeProvidersResponseIter_Next um_resp inner_Next
             \<lparr>writeProvidersResponseIter.iter = s\<rparr> =
             ((None, False, Some e), \<lparr>writeProvidersResponseIter.iter = s1\<rparr>))) \<and>
     (Schema v \<noteq> SchemaBitswap \<longrightarrow>
        readProvidersResponseIter_Next um_read inner_Next
          \<lparr>readProvidersResponseIter.iter = s\<rparr> =
          ((Some (UnknownResponse v), True, None), \<lparr>readProvidersResponseIter.iter = s1\<rparr>) \<and>
        writeProvidersRequestIter_Next um_write inner_Next
          \<lparr>writeProvidersRequestIter.iter = s\<rparr> =
          ((Some (UnknownWrite v), True, None), \<lparr>writeProvidersRequestIter.iter = s1\<rparr>) \<and>
        writeProvidersResponseIter_Next um_resp inner_Next
          \<lparr>writeProvidersResponseIter.iter = s\<rparr> =
          ((Some (UnknownResponse v), True, None), \<lparr>writeProvidersResponseIter.iter = s1\<rparr>))"
  using assms
  by (simp add: readProvidersResponseIter_Next_def writeProvidersRequestIter_Next_def
      writeProvidersResponseIter_Next_def)

lemma schema_dispatch_examples:
  "readProvidersResponseIter_Next ex_unmarshal (JSONIter_Next zero_UnknownProviderRecord None)
     \<lparr>readProvidersResponseIter.iter = ex_stream_of [ex_unknown]\<rparr> =
     ((Some (UnknownResponse ex_unknown), True, None),
      \<lparr>readProvidersResponseIter.iter = ex_stream_of []\<rparr>) \<and>
   readProvidersResponseIter_Next ex_unmarshal (JSONIter_Next zero_UnknownProviderRecord None)
     \<lparr>readProvidersResponseIter.iter = ex_stream_of [ex_bitswap_ok]\<rparr> =
     ((Some (ReadBitswap ex_read_record), True, None),
      \<lparr>readProvidersResponseIter.iter = ex_stream_of []\<rparr>) \<and>
   readProvidersResponseIter_Next ex_unmarshal (JSONIter_Next zero_UnknownProviderRecord None)
     \<lparr>readProvidersResponseIter.iter = ex_stream_of [ex_bitswap_bad]\<rparr> =
     ((None, False, Some (ErrorString ''invalid peer id'')),
      \<lparr>readProvidersResponseIter.iter = ex_stream_of []\<rparr>)"
  using
    schema_dispatch [where inner_Next = "JSONIter_Next zero_UnknownProviderRecord None"
      and s = "ex_stream_of [ex_unknown]" and v = ex_unknown and ?s1.0 = "ex_stream_of []"
      and um_read = ex_unmarshal, OF ex_stream_of_Next]
    schema_dispatch [where inner_Next = "JSONIter_Next zero_UnknownProviderRecord None"
      and s = "ex_stream_of [ex_bitswap_ok]" and v = ex_bitswap_ok and ?s1.0 = "ex_stream_of []"
      and um_read = ex_unmarshal, OF ex_stream_of_Next]
    schema_dispatch [where inner_Next = "JSONIter_Next zero_UnknownProviderRecord None"
      and s = "ex_stream_of [ex_bitswap_bad]" and v = ex_bitswap_bad and ?s1.0 = "ex_stream_of []"
      and um_read = ex_unmarshal, OF ex_stream_of_Next]
  by (simp add: ex_schemas ex_unmarshal_values)

lemma JSONIter_Next_error_hasMore:
  "JSONIter_Next zero ctxErr j = ((v, ok, Some e), j1) \<Longrightarrow> ok"
  by (auto simp: JSONIter_Next_def Let_def split: if_splits option.splits prod.splits)

text \<open>
  Claim C9.  Whenever \<open>JSONIter_Next\<close> returns an error it returns \<open>hasMore = true\<close> with
  it.  Each schema-dispatching iterator tests \<open>hasMore\<close> first: an inner result with
  \<open>hasMore = false\<close> becomes clean exhaustion whatever error stands beside it.  So an error
  of the inner stream iterator always reaches the caller of the dispatching iterator.
\<close>

theorem inner_error_reaches_caller:
  "(snd (snd (fst (JSONIter_Next zero ctxErr j))) \<noteq> None \<longrightarrow>
      fst (snd (fst (JSONIter_Next zero ctxErr j)))) \<and>
   (inner_Next s = ((v, False, err), s1) \<longrightarrow>
      fst (readProvidersResponseIter_Next um_read inner_Next
             \<lparr>readProvidersResponseIter.iter = s\<rparr>) = (None, False, None) \<and>
      fst (writeProvidersRequestIter_Next um_write inner_Next
             \<lparr>writeProvidersRequestIter.iter = s\<rparr>) = (None, False, None) \<and>
      fst (writeProvidersResponseIter_Next um_resp inner_Next
             \<lparr>writeProvidersResponseIter.iter = s\<rparr>) = (None, False, None)) \<and>
   (JSONIter_Next zero_UnknownProviderRecord ctxErr ju = ((vu, ok, Some e), ju1) \<longrightarrow>
      fst (readProvidersResponseIter_Next um_read (JSONIter_Next zero_UnknownProviderRecord ctxErr)
             \<lparr>readProvidersResponseIter.iter = ju\<rparr>) = (None, False, Some e) \<and>
      fst (writeProvidersRequestIter_Next um_write (JSONIter_Next zero_UnknownProviderRecord ctxErr)
             \<lparr>writeProvidersRequestIter.iter = ju\<rparr>) = (None, False, Some e) \<and>
      fst (writeProvidersResponseIter_Next um_resp (JSONIter_Next zero_UnknownProviderRecord ctxErr)
             \<lparr>writeProvidersResponseIter.iter = ju\<rparr>) = (None, False, Some e))"
proof (intro conjI impI)
  assume "snd (snd (fst (JSONIter_Next zero ctxErr j))) \<noteq> None"
  then obtain v' ok' e' j' where "JSONIter_Next zero ctxErr j = ((v', ok', Some e'), j')"
    by (cases "JSONIter_Next zero ctxErr j") auto
  then show "fst (snd (fst (JSONIter_Next zero ctxErr j)))"
    using JSONIter_Next_error_hasMore [of zero ctxErr j v' ok' e' j'] by simp
next
  assume "inner_Next s = ((v, False, err), s1)"
  then show
    "fst (readProvidersResponseIter_Next um_read inner_Next
            \<lparr>readProvidersResponseIter.iter = s\<rparr>) = (None, False, None)"
    "fst (writeProvidersRequestIter_Next um_write inner_Next
            \<lparr>writeProvidersRequestIter.iter = s\<rparr>) = (None, False, None)"
    "fst (writeProvidersResponseIter_Next um_resp inner_Next
            \<lparr>writeProvidersResponseIter.iter = s\<rparr>) = (None, False, None)"
    by (simp_all add: readProvidersResponseIter_Next_def writeProvidersRequestIter_Next_def
        writeProvidersResponseIter_Next_def)
next
  assume a: "JSONIter_Next zero_UnknownProviderRecord ctxErr ju = ((vu, ok, Some e), ju1)"
  then have ok by (rule JSONIter_Next_error_hasMore)
  with a show
    "fst (readProvidersResponseIter_Next um_read (JSONIter_Next zero_UnknownProviderRecord ctxErr)
            \<lparr>readProvidersResponseIter.iter = ju\<rparr>) = (None, False, Some e)"
    "fst (writeProvidersRequestIter_Next um_write (JSONIter_Next zero_UnknownProviderRecord ctxErr)
            \<lparr>writeProvidersRequestIter.iter = ju\<rparr>) = (None, False, Some e)"
    "fst (writeProvidersResponseIter_Next um_resp (JSONIter_Next zero_UnknownProviderRecord ctxErr)
            \<lparr>writeProvidersResponseIter.iter = ju\<rparr>) = (None, False, Some e)"
    by (simp_all add: readProvidersResponseIter_Next_def writeProvidersRequestIter_Next_def
        writeProvidersResponseIter_Next_def)
qed

lemma ex_stream_cancelled:
  "JSONIter_Next zero_UnknownProviderRecord (Some (ErrorString ''context canceled''))
     (ex_stream_of [ex_unknown]) =
   ((zero_UnknownProviderRecord, True, Some (ErrorString ''context canceled'')),
    JSONIter_close (ex_stream_of [ex_unknown]))"
  by (simp add: JSONIter_Next_def ex_stream_of_def)

lemma ex_broken_inner_0:
  "ex_broken_inner 0 = ((zero_UnknownProviderRecord, False, Some (ErrorString ''lost'')), 1)"
  by (simp add: ex_broken_inner_def)

theorem inner_error_reaches_caller_witness:
  "fst (snd (fst (JSONIter_Next zero_UnknownProviderRecord (Some (ErrorString ''context canceled''))
     (ex_stream_of [ex_unknown])))) \<and>
   fst (readProvidersResponseIter_Next ex_unmarshal ex_broken_inner
          \<lparr>readProvidersResponseIter.iter = 0\<rparr>) = (None, False, None) \<and>
   fst (readProvidersResponseIter_Next ex_unmarshal
          (JSONIter_Next zero_UnknownProviderRecord (Some (ErrorString ''context canceled'')))
          \<lparr>readProvidersResponseIter.iter = ex_stream_of [ex_unknown]\<rparr>) =
     (None, False, Some (ErrorString ''context canceled''))"
  using
    inner_error_reaches_caller [where zero = zero_UnknownProviderRecord
      and ctxErr = "Some (ErrorString ''context canceled'')"
      and j = "ex_stream_of [ex_unknown]" and ju = "ex_stream_of [ex_unknown]"
      and inner_Next = ex_broken_inner and s = 0 and v = zero_UnknownProviderRecord
      and err = "Some (ErrorString ''lost'')" and ?s1.0 = 1
      and vu = zero_UnknownProviderRecord and ok = True
      and e = "ErrorString ''context canceled''"
      and ?ju1.0 = "JSONIter_close (ex_stream_of [ex_unknown])" and um_read = ex_unmarshal]
  by (simp add: ex_stream_cancelled ex_broken_inner_0)

subsection \<open>The routing client\<close>

text \<open>
  Claim C10.  Let \<open>c\<close> be the client as the options leave it.  If \<open>c\<close> has an identity and a
  non-empty peer id and the peer id does not match the identity's public key, \<open>New\<close> returns
  no client and the error "identity does not match provider".  If \<open>c\<close> has no identity or an
  empty peer id, the check is skipped and \<open>New\<close> returns \<open>c\<close> with no error.
\<close>

theorem New_identity_check:
  assumes "c = apply_options opts (default_client ext url)"
  shows
    "(\<forall>k. identity c = Some k \<and> peerID_Size (peerID c) \<noteq> 0 \<and>
          \<not> MatchesPublicKey ext (peerID c) (GetPublic ext k) \<longrightarrow>
          New ext url opts = (None, Some (ErrorString ''identity does not match provider''))) \<and>
     (identity c = None \<or> peerID_Size (peerID c) = 0 \<longrightarrow> New ext url opts = (Some c, None))"
  using assms by (auto simp: New_def Let_def split: option.splits)

theorem New_identity_check_witness:
  "New ex_ext ''http://router'' [WithIdentity (Some (PrivKey ''alice'')), WithProviderInfo ''bob'' []] =
     (None, Some (ErrorString ''identity does not match provider'')) \<and>
   New ex_ext ''http://router'' [WithProviderInfo ''bob'' []] =
     (Some ((default_client ex_ext ''http://router'')\<lparr>peerID := ''bob''\<rparr>), None) \<and>
   New ex_ext ''http://router'' [WithIdentity (Some (PrivKey ''alice''))] =
     (Some ((default_client ex_ext ''http://router'')\<lparr>identity := Some (PrivKey ''alice'')\<rparr>), None)"
  using
    New_identity_check [of "apply_options [WithIdentity (Some (PrivKey ''alice'')), WithProviderInfo ''bob'' []] (default_client ex_ext ''http://router'')"
      "[WithIdentity (Some (PrivKey ''alice'')), WithProviderInfo ''bob'' []]" ex_ext "''http://router''"]
    New_identity_check [of "apply_options [WithProviderInfo ''bob'' []] (default_client ex_ext ''http://router'')"
      "[WithProviderInfo ''bob'' []]" ex_ext "''http://router''"]
    New_identity_check [of "apply_options [WithIdentity (Some (PrivKey ''alice''))] (default_client ex_ext ''http://router'')"
      "[WithIdentity (Some (PrivKey ''alice''))]" ex_ext "''http://router''"]
  by (simp add: apply_options_def default_client_def peerID_Size_def ex_ext_def)

text \<open>
  Claim C8.  Without an identity, or with an empty peer id, \<open>ProvideBitswap\<close> returns the
  configuration error at once and leaves the world as it was: no signature was asked for
  and no HTTP request was issued.  Conversely a call that signs or issues a request was
  made by a client that has both.
\<close>

theorem ProvideBitswap_unconfigured:
  "(identity c = None \<longrightarrow>
      ProvideBitswap ext c keys ttl w =
        ((0, Some (ErrorString ''cannot provide Bitswap records without an identity'')), w)) \<and>
   (identity c \<noteq> None \<and> peerID_Size (peerID c) = 0 \<longrightarrow>
      ProvideBitswap ext c keys ttl w =
        ((0, Some (ErrorString ''cannot provide Bitswap records without a peer ID'')), w)) \<and>
   (sign_calls (snd (ProvideBitswap ext c keys ttl w)) \<noteq> sign_calls w \<or>
    requests (snd (ProvideBitswap ext c keys ttl w)) \<noteq> requests w \<longrightarrow>
      identity c \<noteq> None \<and> peerID_Size (peerID c) \<noteq> 0)"
  by (auto simp: ProvideBitswap_def split: option.splits)

theorem ProvideBitswap_unconfigured_witness:
  "ProvideBitswap ex_ext ((ex_client (ex_server 200 ''application/json'' ''ttl''))\<lparr>identity := None\<rparr>)
     [''cid1''] 86400000000000 ex_world =
     ((0, Some (ErrorString ''cannot provide Bitswap records without an identity'')), ex_world) \<and>
   ProvideBitswap ex_ext ((ex_client (ex_server 200 ''application/json'' ''ttl''))\<lparr>peerID := []\<rparr>)
     [''cid1''] 86400000000000 ex_world =
     ((0, Some (ErrorString ''cannot provide Bitswap records without a peer ID'')), ex_world) \<and>
   sign_calls (snd (ProvideBitswap ex_ext (ex_client (ex_server 200 ''application/json'' ''ttl''))
     [''cid1''] 86400000000000 ex_world)) \<noteq> sign_calls ex_world \<and>
   identity (ex_client (ex_server 200 ''application/json'' ''ttl'')) \<noteq> None \<and>
   peerID_Size (peerID (ex_client (ex_server 200 ''application/json'' ''ttl''))) \<noteq> 0"
  using
    ProvideBitswap_unconfigured [of "(ex_client (ex_server 200 ''application/json'' ''ttl''))\<lparr>identity := None\<rparr>"
      ex_ext "[''cid1'']" 86400000000000 ex_world]
    ProvideBitswap_unconfigured [of "(ex_client (ex_server 200 ''application/json'' ''ttl''))\<lparr>peerID := []\<rparr>"
      ex_ext "[''cid1'']" 86400000000000 ex_world]
    ProvideBitswap_unconfigured [of "ex_client (ex_server 200 ''application/json'' ''ttl'')"
      ex_ext "[''cid1'']" 86400000000000 ex_world]
  by (simp add: ex_client_def peerID_Size_def ProvideBitswap_def ex_ext_def ex_world_def
      provideSignedBitswapRecord_def ex_server_def ex_response_of_def close_body_def Let_def)

lemma fmt_d_examples:
  "fmt_d 0 = ''0''" "fmt_d 2 = ''2''" "fmt_d 12 = ''12''" "fmt_d 305 = ''305''"
  by (simp_all add: fmt_d.simps digit_def)

lemma provideSignedBitswapRecord_200:
  assumes "MarshalJSONBytes ext \<lparr>Providers = [WriteBitswap bswp]\<rparr> = Inr b"
    and "NewRequestWithContext ext ''POST'' (baseURL c @ ProvidePath) (Some b) = Inr httpReq"
    and "httpClient c httpReq = Inr resp"
    and "StatusCode resp = 200"
    and "decodeWriteProvidersResponse ext (content (Body resp)) = Inr results"
  shows "fst (provideSignedBitswapRecord ext c bswp w) =
     (if length results \<noteq> 1 then
        (0, Some (ErrorString (''expected 1 result but got '' @ fmt_d (length results))))
      else
        (case results ! 0 of
           Some (WriteBitswapResponse v) \<Rightarrow>
             (case AdvisoryTTL v of Some d \<Rightarrow> (d, None) | None \<Rightarrow> (0, None))
         | _ \<Rightarrow> (0, Some (ErrorString ''expected AdvisoryTTL field''))))"
  using assms
  by (simp add: provideSignedBitswapRecord_def Let_def
      split: option.split ProviderResponse.split)

lemma ProvideBitswap_passes_result:
  assumes "identity c = Some k" and "peerID_Size (peerID c) \<noteq> 0"
    and "Sign ext (bitswap_record ext c keys ttl) (peerID c) k = Inr signed"
  shows "fst (ProvideBitswap ext c keys ttl w) =
     (case fst (provideSignedBitswapRecord ext c
                  (case afterSignCallback c of None \<Rightarrow> signed | Some f \<Rightarrow> f signed)
                  (w\<lparr>sign_calls := Suc (sign_calls w)\<rparr>)) of
        (advisoryTTL, None) \<Rightarrow> (advisoryTTL, None)
      | (advisoryTTL, Some e) \<Rightarrow> (0, Some e))"
  using assms
  by (simp add: ProvideBitswap_def Let_def split: prod.split option.split)

text \<open>
  Claim C6, as amended.  Take a call of \<open>ProvideBitswap\<close> by a configured client in which signing,
  serialisation and the request succeed, the response has the status the code accepts
  (200) and its body decodes to the list \<open>results\<close>.  If \<open>results\<close> does not have exactly
  one element the call fails with "expected 1 result but got N", N the length in decimal.
  If the one element is not the bitswap response variant it fails with "expected
  AdvisoryTTL field".  Otherwise it returns the advisory TTL of that element with no
  error, and a zero duration with no error when the TTL is absent.
\<close>

theorem ProvideBitswap_result:
  assumes "identity c = Some k" and "peerID_Size (peerID c) \<noteq> 0"
    and "Sign ext (bitswap_record ext c keys ttl) (peerID c) k = Inr signed"
    and "MarshalJSONBytes ext
           \<lparr>Providers = [WriteBitswap (case afterSignCallback c of None \<Rightarrow> signed
                                        | Some f \<Rightarrow> f signed)]\<rparr> = Inr b"
    and "NewRequestWithContext ext ''POST'' (baseURL c @ ProvidePath) (Some b) = Inr httpReq"
    and "httpClient c httpReq = Inr resp"
    and "StatusCode resp = 200"
    and "decodeWriteProvidersResponse ext (content (Body resp)) = Inr results"
  shows
    "(length results \<noteq> 1 \<longrightarrow>
        fst (ProvideBitswap ext c keys ttl w) =
          (0, Some (ErrorString (''expected 1 result but got '' @ fmt_d (length results))))) \<and>
     (\<forall>x. results = [x] \<and> (\<forall>v. x \<noteq> Some (WriteBitswapResponse v)) \<longrightarrow>
        fst (ProvideBitswap ext c keys ttl w) =
          (0, Some (ErrorString ''expected AdvisoryTTL field''))) \<and>
     (\<forall>v d. results = [Some (WriteBitswapResponse v)] \<and> AdvisoryTTL v = Some d \<longrightarrow>
        fst (ProvideBitswap ext c keys ttl w) = (d, None)) \<and>
     (\<forall>v. results = [Some (WriteBitswapResponse v)] \<and> AdvisoryTTL v = None \<longrightarrow>
        fst (ProvideBitswap ext c keys ttl w) = (0, None))"
proof -
  let ?req1 = "case afterSignCallback c of None \<Rightarrow> signed | Some f \<Rightarrow> f signed"
  let ?w1 = "w\<lparr>sign_calls := Suc (sign_calls w)\<rparr>"
  note inner = provideSignedBitswapRecord_200 [OF assms(4-8), of ?w1]
  note outer = ProvideBitswap_passes_result [OF assms(1-3), of w]
  have many: "length results \<noteq> 1 \<Longrightarrow> fst (ProvideBitswap ext c keys ttl w) =
      (0, Some (ErrorString (''expected 1 result but got '' @ fmt_d (length results))))"
    by (simp add: outer inner)
  have other: "\<And>x. results = [x] \<Longrightarrow> (\<forall>v. x \<noteq> Some (WriteBitswapResponse v)) \<Longrightarrow>
      fst (ProvideBitswap ext c keys ttl w) = (0, Some (ErrorString ''expected AdvisoryTTL field''))"
    by (simp add: outer inner split: option.split ProviderResponse.split)
  have ttl: "\<And>v d. results = [Some (WriteBitswapResponse v)] \<Longrightarrow> AdvisoryTTL v = Some d \<Longrightarrow>
      fst (ProvideBitswap ext c keys ttl w) = (d, None)"
    by (simp add: outer inner)
  have nottl: "\<And>v. results = [Some (WriteBitswapResponse v)] \<Longrightarrow> AdvisoryTTL v = None \<Longrightarrow>
      fst (ProvideBitswap ext c keys ttl w) = (0, None)"
    by (simp add: outer inner)
  show ?thesis
    using many other ttl nottl by blast
qed

lemma ex_round_trip:
  "identity (ex_client h) = Some (PrivKey ''alice'')"
  "peerID_Size (peerID (ex_client h)) \<noteq> 0"
  "Sign ex_ext r p k = Inr (r\<lparr>Signature := ''signed''\<rparr>)"
  "afterSignCallback (ex_client h) = None"
  "MarshalJSONBytes ex_ext q = Inr ''{Providers:[1]}''"
  "NewRequestWithContext ex_ext m u body = Inr \<lparr>req_method = m, req_url = u, req_body = body\<rparr>"
  "httpClient (ex_client h) = h"
  "decodeWriteProvidersResponse ex_ext = ex_response_of"
  by (simp_all add: ex_client_def ex_ext_def peerID_Size_def)

lemma ex_server_answer:
  "ex_server status ctype body req =
     Inr \<lparr>StatusCode = status, ContentType = ctype,
          Body = \<lparr>content = body, is_closer = True, closes = 0\<rparr>\<rparr>"
  by (simp add: ex_server_def)

theorem ProvideBitswap_result_witness:
  "fst (ProvideBitswap ex_ext (ex_client (ex_server 200 ''application/json'' ''two''))
          [''cid1''] 86400000000000 ex_world) =
     (0, Some (ErrorString ''expected 1 result but got 2'')) \<and>
   fst (ProvideBitswap ex_ext (ex_client (ex_server 200 ''application/json'' ''none''))
          [''cid1''] 86400000000000 ex_world) =
     (0, Some (ErrorString ''expected 1 result but got 0'')) \<and>
   fst (ProvideBitswap ex_ext (ex_client (ex_server 200 ''application/json'' ''unknown''))
          [''cid1''] 86400000000000 ex_world) =
     (0, Some (ErrorString ''expected AdvisoryTTL field'')) \<and>
   fst (ProvideBitswap ex_ext (ex_client (ex_server 200 ''application/json'' ''ttl''))
          [''cid1''] 86400000000000 ex_world) = (86400000000000, None) \<and>
   fst (ProvideBitswap ex_ext (ex_client (ex_server 200 ''application/json'' ''nottl''))
          [''cid1''] 86400000000000 ex_world) = (0, None)"
proof -
  have use: "\<And>body results.
      ex_response_of body = Inr results \<Longrightarrow>
      (length results \<noteq> 1 \<longrightarrow>
         fst (ProvideBitswap ex_ext (ex_client (ex_server 200 ''application/json'' body))
                [''cid1''] 86400000000000 ex_world) =
           (0, Some (ErrorString (''expected 1 result but got '' @ fmt_d (length results))))) \<and>
      (\<forall>x. results = [x] \<and> (\<forall>v. x \<noteq> Some (WriteBitswapResponse v)) \<longrightarrow>
         fst (ProvideBitswap ex_ext (ex_client (ex_server 200 ''application/json'' body))
                [''cid1''] 86400000000000 ex_world) =
           (0, Some (ErrorString ''expected AdvisoryTTL field''))) \<and>
      (\<forall>v d. results = [Some (WriteBitswapResponse v)] \<and> AdvisoryTTL v = Some d \<longrightarrow>
         fst (ProvideBitswap ex_ext (ex_client (ex_server 200 ''application/json'' body))
                [''cid1''] 86400000000000 ex_world) = (d, None)) \<and>
      (\<forall>v. results = [Some (WriteBitswapResponse v)] \<and> AdvisoryTTL v = None \<longrightarrow>
         fst (ProvideBitswap ex_ext (ex_client (ex_server 200 ''application/json'' body))
                [''cid1''] 86400000000000 ex_world) = (0, None))"
    by (rule ProvideBitswap_result)
      (simp add: ex_round_trip ex_server_answer)+
  show ?thesis
    using use [of "''two''"] use [of "''none''"] use [of "''unknown''"] use [of "''ttl''"]
      use [of "''nottl''"]
    by (simp add: ex_response_of_def fmt_d.simps digit_def)
qed

text \<open>
  Claim C6 as stated fails: 201 is a successful (2xx) status, the body holds exactly one
  bitswap result with an advisory TTL, and the call returns the status error instead of
  the TTL, since line 249 accepts the status 200 only.
\<close>

theorem ProvideBitswap_created_is_error:
  "(200::int) \<le> 201 \<and> (201::int) < 300 \<and>
   decodeWriteProvidersResponse ex_ext ''ttl'' =
     Inr [Some (WriteBitswapResponse
            \<lparr>wr_Protocol = ''transport-bitswap'', wr_Schema = SchemaBitswap,
             AdvisoryTTL = Some 86400000000000\<rparr>)] \<and>
   fst (ProvideBitswap ex_ext (ex_client (ex_server 201 ''application/json'' ''ttl''))
          [''cid1''] 86400000000000 ex_world) = (0, Some (HTTPError 201 ''ttl''))"
  by (simp add: ProvideBitswap_def provideSignedBitswapRecord_def ex_round_trip
      ex_server_answer ex_response_of_def httpError_def Let_def)
    (simp add: ex_ext_def)

lemma FindProviders_response:
  assumes "NewRequestWithContext ext ''GET'' (baseURL c @ ProvidePath @ key) None = Inr req"
    and "httpClient c req = Inr resp"
  shows "FindProviders ext c key w =
     (let w1 = w\<lparr>requests := requests w @ [req]\<rparr> in
      if StatusCode resp = 404 then ((None, None), close_body w1)
      else if StatusCode resp \<noteq> 200 then
        ((None, Some (httpError ext (StatusCode resp) (Reader_Close (Body resp)))), close_body w1)
      else
        (case ParseMediaType ext (ContentType resp) of
           Inl err \<Rightarrow> ((None, Some (Wrapped ''parsing Content-Type: '' err)), close_body w1)
         | Inr mediaType \<Rightarrow>
             if mediaType = mediaTypeJSON then
               ((Some (SliceIterOf (FromSlice
                         (fst (decodeReadProvidersResponse ext (content (Body resp)))))),
                 snd (decodeReadProvidersResponse ext (content (Body resp)))), close_body w1)
             else if mediaType = mediaTypeNDJSON then
               ((Some (ReadProvidersIterOf
                         (NewReadProvidersResponseIter (newEnvelopeDecoder ext) (Body resp))),
                 None), w1)
             else ((None, Some (ErrorString ''unknown content type'')), close_body w1)))"
  using assms
  by (simp add: FindProviders_def Let_def split: sum.split prod.split)

text \<open>
  What the code does with a 404 answer, for every client and server: it closes the body
  and returns the nil interface value with no error, and a call of \<open>Next\<close> on that result
  is a nil dereference.
\<close>

lemma FindProviders_not_found:
  assumes "NewRequestWithContext ext ''GET'' (baseURL c @ ProvidePath @ key) None = Inr req"
    and "httpClient c req = Inr resp"
    and "StatusCode resp = 404"
  shows
    "FindProviders ext c key w =
       ((None, None), close_body (w\<lparr>requests := requests w @ [req]\<rparr>)) \<and>
     provs_Next um ctxErr (fst (fst (FindProviders ext c key w))) = Inl NilPointerDereference"
  using assms(3)
  by (simp add: FindProviders_response [OF assms(1,2)] provs_Next_def)

lemma ex_FindProviders_request:
  "NewRequestWithContext ex_ext ''GET'' (baseURL (ex_client h) @ ProvidePath @ ''cid1'') None =
     Inr \<lparr>req_method = ''GET'', req_url = ''http://router/routing/v1/providers/cid1'',
          req_body = None\<rparr>"
  by (simp add: ex_ext_def ex_client_def ProvidePath_def)

lemma ex_FindProviders_answer:
  "httpClient (ex_client (ex_server status ctype body))
      \<lparr>req_method = ''GET'', req_url = ''http://router/routing/v1/providers/cid1'',
       req_body = None\<rparr> =
     Inr \<lparr>StatusCode = status, ContentType = ctype,
          Body = \<lparr>content = body, is_closer = True, closes = 0\<rparr>\<rparr>"
  by (simp add: ex_client_def ex_server_def)

text \<open>
  Claim C3, at the input where the code departs from it.  On a 404 answer
  \<open>FindProviders\<close> returns no error and the nil interface value (line 150): there is no
  iterator, and \<open>Next\<close> on the result panics instead of reporting exhaustion.  The other
  way a server says that it knows no provider, status 200 with an empty batch, returns a
  sequence iterator whose first \<open>Next\<close> reports exhaustion with no error (lines 166-171).
\<close>

theorem FindProviders_not_found_returns_nil:
  "FindProviders ex_ext (ex_client (ex_server 404 ''text/plain'' ''no providers'')) ''cid1'' ex_world =
     ((None, None),
      \<lparr>requests = [\<lparr>req_method = ''GET'', req_url = ''http://router/routing/v1/providers/cid1'',
                     req_body = None\<rparr>],
       sign_calls = 0, body_closes = 1\<rparr>) \<and>
   provs_Next ex_unmarshal None
     (fst (fst (FindProviders ex_ext (ex_client (ex_server 404 ''text/plain'' ''no providers''))
        ''cid1'' ex_world))) = Inl NilPointerDereference \<and>
   fst (FindProviders ex_ext (ex_client (ex_server 200 ''application/json'' ''{Providers:[]}''))
          ''cid1'' ex_world) = (Some (SliceIterOf (FromSlice [])), None) \<and>
   provs_Next ex_unmarshal None (Some (SliceIterOf (FromSlice []))) =
     Inr ((None, False, None), SliceIterOf (FromSlice []))"
proof -
  have nf: "FindProviders ex_ext (ex_client (ex_server 404 ''text/plain'' ''no providers''))
      ''cid1'' ex_world =
     ((None, None),
      \<lparr>requests = [\<lparr>req_method = ''GET'', req_url = ''http://router/routing/v1/providers/cid1'',
                     req_body = None\<rparr>],
       sign_calls = 0, body_closes = 1\<rparr>)"
    using FindProviders_not_found [OF ex_FindProviders_request ex_FindProviders_answer,
        of 404 "''text/plain''" "''no providers''" ex_world ex_unmarshal None]
    by (simp add: ex_world_def close_body_def)
  have empty: "fst (FindProviders ex_ext
      (ex_client (ex_server 200 ''application/json'' ''{Providers:[]}'')) ''cid1'' ex_world) =
     (Some (SliceIterOf (FromSlice [])), None)"
    by (simp add: FindProviders_response [OF ex_FindProviders_request ex_FindProviders_answer]
        Let_def)
      (simp add: ex_ext_def)
  show ?thesis
    by (simp add: nf empty provs_Next_def SliceIter_Next_def FromSlice_def)
qed

text \<open>
  Claim C7, as amended.  Let the request be built and the server answer.  With status
  200 the client goes on to the content type: a header that does not parse, the batch
  JSON body decoded into a sequence iterator, the NDJSON body handed to a dispatching
  iterator, or an unknown media type.  With any status other than 200 and 404 (the other
  2xx statuses among them) it returns the status error, which carries the status code.
  With 404 it returns neither.  Nothing is said here about the message in the status
  error; the lemma after the counterexample shows where it is read from.
\<close>

theorem FindProviders_status:
  assumes "NewRequestWithContext ext ''GET'' (baseURL c @ ProvidePath @ key) None = Inr req"
    and "httpClient c req = Inr resp"
  shows
    "(StatusCode resp = 200 \<longrightarrow>
        (\<forall>e. ParseMediaType ext (ContentType resp) = Inl e \<longrightarrow>
           fst (FindProviders ext c key w) =
             (None, Some (Wrapped ''parsing Content-Type: '' e))) \<and>
        (ParseMediaType ext (ContentType resp) = Inr mediaTypeJSON \<longrightarrow>
           fst (FindProviders ext c key w) =
             (Some (SliceIterOf (FromSlice
                      (fst (decodeReadProvidersResponse ext (content (Body resp)))))),
              snd (decodeReadProvidersResponse ext (content (Body resp))))) \<and>
        (ParseMediaType ext (ContentType resp) = Inr mediaTypeNDJSON \<longrightarrow>
           fst (FindProviders ext c key w) =
             (Some (ReadProvidersIterOf
                      (NewReadProvidersResponseIter (newEnvelopeDecoder ext) (Body resp))),
              None)) \<and>
        (\<forall>m. ParseMediaType ext (ContentType resp) = Inr m \<and> m \<noteq> mediaTypeJSON \<and>
              m \<noteq> mediaTypeNDJSON \<longrightarrow>
           fst (FindProviders ext c key w) =
             (None, Some (ErrorString ''unknown content type'')))) \<and>
     (StatusCode resp \<noteq> 200 \<and> StatusCode resp \<noteq> 404 \<longrightarrow>
        (\<exists>msg. fst (FindProviders ext c key w) =
                 (None, Some (HTTPError (StatusCode resp) msg)))) \<and>
     (StatusCode resp = 404 \<longrightarrow> fst (FindProviders ext c key w) = (None, None))"
  by (simp add: FindProviders_response [OF assms] Let_def httpError_def)

theorem FindProviders_status_witness:
  "fst (FindProviders ex_ext (ex_client (ex_server 200 ''application/json'' ''{Providers:[1]}''))
          ''cid1'' ex_world) =
     (Some (SliceIterOf (FromSlice [Some (UnknownResponse ex_unknown)])), None) \<and>
   fst (FindProviders ex_ext (ex_client (ex_server 200 ''application/x-ndjson'' ''{Schema:foo}''))
          ''cid1'' ex_world) =
     (Some (ReadProvidersIterOf
              \<lparr>readProvidersResponseIter.iter =
                 \<lparr>Decoder = [(ex_unknown, None)],
                  Reader = \<lparr>content = ''{Schema:foo}'', is_closer = True, closes = 0\<rparr>,
                  done_flag = False\<rparr>\<rparr>), None) \<and>
   fst (FindProviders ex_ext (ex_client (ex_server 200 ''text/html'' ''hello''))
          ''cid1'' ex_world) = (None, Some (ErrorString ''unknown content type'')) \<and>
   (\<exists>msg. fst (FindProviders ex_ext (ex_client (ex_server 500 ''text/plain'' ''overloaded''))
                 ''cid1'' ex_world) = (None, Some (HTTPError 500 msg))) \<and>
   fst (FindProviders ex_ext (ex_client (ex_server 404 ''text/plain'' ''no providers''))
          ''cid1'' ex_world) = (None, None)"
  using
    FindProviders_status [OF ex_FindProviders_request ex_FindProviders_answer,
      of 200 "''application/json''" "''{Providers:[1]}''" ex_world]
    FindProviders_status [OF ex_FindProviders_request ex_FindProviders_answer,
      of 200 "''application/x-ndjson''" "''{Schema:foo}''" ex_world]
    FindProviders_status [OF ex_FindProviders_request ex_FindProviders_answer,
      of 200 "''text/html''" "''hello''" ex_world]
    FindProviders_status [OF ex_FindProviders_request ex_FindProviders_answer,
      of 500 "''text/plain''" "''overloaded''" ex_world]
    FindProviders_status [OF ex_FindProviders_request ex_FindProviders_answer,
      of 404 "''text/plain''" "''no providers''" ex_world]
  by (simp add: ex_ext_def NewReadProvidersResponseIter_def FromReaderJSON_def Reader_Close_def)

text \<open>
  Claim C7 as stated fails: 201 is a 2xx status, and the client returns the status error
  for it without looking at the content type or the body.
\<close>

theorem FindProviders_created_is_error:
  "(200::int) \<le> 201 \<and> (201::int) < 300 \<and>
   (\<exists>msg. fst (FindProviders ex_ext
                   (ex_client (ex_server 201 ''application/json'' ''{Providers:[1]}''))
                   ''cid1'' ex_world) = (None, Some (HTTPError 201 msg)))"
  by (simp add: FindProviders_def ex_ext_def ex_client_def ex_server_def Let_def httpError_def
      Reader_Close_def)

text \<open>
  Where the message of the status error comes from.  \<open>FindProviders\<close> closes the body
  (line 154) and then hands it to \<open>httpError\<close> (line 155), so the message is read from a
  closed body; \<open>provideSignedBitswapRecord\<close> hands over the open body and closes it on
  return (lines 247-250).
\<close>

lemma FindProviders_status_error_body:
  assumes "NewRequestWithContext ext ''GET'' (baseURL c @ ProvidePath @ key) None = Inr req"
    and "httpClient c req = Inr resp"
    and "StatusCode resp \<noteq> 200" and "StatusCode resp \<noteq> 404"
  shows "fst (FindProviders ext c key w) =
     (None, Some (httpError ext (StatusCode resp) (Reader_Close (Body resp))))"
  using assms(3,4) by (simp add: FindProviders_response [OF assms(1,2)] Let_def)

lemma provideSignedBitswapRecord_status_error_body:
  assumes "MarshalJSONBytes ext \<lparr>Providers = [WriteBitswap bswp]\<rparr> = Inr b"
    and "NewRequestWithContext ext ''POST'' (baseURL c @ ProvidePath) (Some b) = Inr httpReq"
    and "httpClient c httpReq = Inr resp"
    and "StatusCode resp \<noteq> 200"
  shows "fst (provideSignedBitswapRecord ext c bswp w) =
     (0, Some (httpError ext (StatusCode resp) (Body resp)))"
  using assms by (simp add: provideSignedBitswapRecord_def Let_def)

lemma status_error_message_example:
  "fst (FindProviders ex_ext (ex_client (ex_server 500 ''text/plain'' ''overloaded''))
          ''cid1'' ex_world) = (None, Some (HTTPError 500 [])) \<and>
   fst (ProvideBitswap ex_ext (ex_client (ex_server 500 ''text/plain'' ''overloaded''))
          [''cid1''] 86400000000000 ex_world) = (0, Some (HTTPError 500 ''overloaded''))"
  by (simp add: FindProviders_def ProvideBitswap_def provideSignedBitswapRecord_def
      ex_round_trip ex_server_answer httpError_def Let_def Reader_Close_def)
    (simp add: ex_ext_def ex_client_def)

subsection \<open>Termination and release of the iterators\<close>

text \<open>
  What the stream iterator does on its own terminal paths.  A call on a live iterator
  that reports exhaustion or an error (cancellation, end of stream, a value that does not
  decode) leaves the iterator done and has closed the reader once, if it is a closer.
  Over any sequence of calls the reader is closed at most once, and after a terminal
  result every later call returns the zero value, \<open>false\<close> and no error.  The sequence
  iterator stays exhausted, and so does the dispatching iterator once its inner stream
  iterator has terminated.
\<close>

lemma JSONIter_Next_terminal_closes:
  assumes "\<not> done_flag j"
    and "JSONIter_Next zero ctxErr j = ((v, ok, err), j1)"
    and "\<not> ok \<or> err \<noteq> None"
  shows "done_flag j1 \<and>
     closes (Reader j1) =
       (if is_closer (Reader j) then Suc (closes (Reader j)) else closes (Reader j))"
  using assms
  by (auto simp: JSONIter_Next_def JSONIter_close_simps Let_def
      split: option.splits prod.splits if_splits)

lemma JSONIter_Next_keeps_done:
  "done_flag j \<Longrightarrow> done_flag (snd (JSONIter_Next zero ctxErr j))"
  by (simp add: JSONIter_Next_def)

lemma JSONIter_Next_closes_step:
  "closes (Reader (snd (JSONIter_Next zero ctxErr j))) = closes (Reader j) \<or>
   (\<not> done_flag j \<and> done_flag (snd (JSONIter_Next zero ctxErr j)) \<and>
    closes (Reader (snd (JSONIter_Next zero ctxErr j))) = Suc (closes (Reader j)))"
  by (auto simp: JSONIter_Next_def JSONIter_close_simps Let_def
      split: option.splits prod.splits)

lemma JSONIter_calls_done:
  "done_flag j \<Longrightarrow>
   JSONIter_calls zero ctxs j = (replicate (length ctxs) (zero, False, None), j)"
  by (induction ctxs) (simp_all add: JSONIter_Next_done)

lemma JSONIter_calls_close_at_most_once:
  "closes (Reader (snd (JSONIter_calls zero ctxs j))) \<le> Suc (closes (Reader j))"
proof (induction ctxs arbitrary: j)
  case Nil
  then show ?case by simp
next
  case (Cons c cs)
  obtain r j1 where step: "JSONIter_Next zero c j = (r, j1)"
    by (cases "JSONIter_Next zero c j")
  obtain rs j2 where rest: "JSONIter_calls zero cs j1 = (rs, j2)"
    by (cases "JSONIter_calls zero cs j1")
  from JSONIter_Next_closes_step [of zero c j] step
  consider "closes (Reader j1) = closes (Reader j)"
    | "done_flag j1" "closes (Reader j1) = Suc (closes (Reader j))"
    by auto
  then show ?case
  proof cases
    case 1
    with Cons.IH [of j1] step rest show ?thesis by simp
  next
    case 2
    with JSONIter_calls_done [of j1 zero cs] step rest show ?thesis by simp
  qed
qed

lemma JSONIter_after_terminal:
  assumes "JSONIter_Next zero ctxErr j = ((v, ok, err), j1)" and "\<not> ok \<or> err \<noteq> None"
  shows "JSONIter_calls zero ctxs j1 = (replicate (length ctxs) (zero, False, None), j1)"
proof -
  have "done_flag j1"
  proof (cases "done_flag j")
    case True
    with assms(1) show ?thesis by (simp add: JSONIter_Next_def)
  next
    case False
    with JSONIter_Next_terminal_closes [OF _ assms] show ?thesis by simp
  qed
  then show ?thesis by (rule JSONIter_calls_done)
qed

lemma SliceIter_after_exhaustion:
  assumes "SliceIter_Next zero s = ((v, False, err), s1)"
  shows "SliceIter_Next zero s1 = ((zero, False, None), s1)"
  using assms by (auto simp: SliceIter_Next_def split: if_splits)

lemma readProviders_after_inner_terminal:
  assumes "JSONIter_Next zero_UnknownProviderRecord ctxErr (readProvidersResponseIter.iter p) =
      ((v, ok, err), j1)"
    and "\<not> ok \<or> err \<noteq> None"
  shows "readProviders_Next um ctxErr'
      (snd (readProviders_Next um ctxErr p)) =
    ((None, False, None), snd (readProviders_Next um ctxErr p))"
proof -
  have d: "done_flag j1"
  proof (cases "done_flag (readProvidersResponseIter.iter p)")
    case True
    with assms(1) show ?thesis by (simp add: JSONIter_Next_def)
  next
    case False
    with JSONIter_Next_terminal_closes [OF _ assms] show ?thesis by simp
  qed
  have "snd (readProviders_Next um ctxErr p) = p\<lparr>readProvidersResponseIter.iter := j1\<rparr>"
    using assms
    by (auto simp: readProviders_Next_def readProvidersResponseIter_Next_def Let_def
        split: option.splits sum.splits)
  then show ?thesis
    using d
    by (simp add: readProviders_Next_def readProvidersResponseIter_Next_def JSONIter_Next_done)
qed

text \<open>
  Claim C1, at the input where the code departs from it.  The stream holds a bitswap
  envelope whose payload does not decode, then another envelope.  The first pull of the
  dispatching iterator returns the decode error with \<open>hasMore = false\<close> (provider.go,
  lines 31-34), and the reader, a closer, has not been closed and the stream iterator is
  not done: a caller that stops at the error leaves the stream open.
\<close>

theorem malformed_payload_leaves_stream_open:
  "readProviders_Next ex_unmarshal None \<lparr>readProvidersResponseIter.iter = ex_stream\<rparr> =
     ((None, False, Some (ErrorString ''invalid peer id'')),
      \<lparr>readProvidersResponseIter.iter = ex_stream_of [ex_unknown]\<rparr>) \<and>
   is_closer (Reader (ex_stream_of [ex_unknown])) \<and>
   closes (Reader (ex_stream_of [ex_unknown])) = 0 \<and>
   \<not> done_flag (ex_stream_of [ex_unknown])"
  by (simp add: readProviders_Next_def readProvidersResponseIter_Next_def ex_stream_def
      ex_stream_of_Next ex_schemas ex_unmarshal_values)
    (simp add: ex_stream_of_def ex_body_def)

text \<open>
  Claim C2, at the same input.  After the pull that returned the decode error with
  \<open>hasMore = false\<close>, the next pull does not return \<open>(nil, false, nil)\<close>: it returns the
  following envelope with \<open>hasMore = true\<close>.
\<close>

theorem malformed_payload_is_not_terminal:
  "readProviders_Next ex_unmarshal None \<lparr>readProvidersResponseIter.iter = ex_stream\<rparr> =
     ((None, False, Some (ErrorString ''invalid peer id'')),
      \<lparr>readProvidersResponseIter.iter = ex_stream_of [ex_unknown]\<rparr>) \<and>
   readProviders_Next ex_unmarshal None
     \<lparr>readProvidersResponseIter.iter = ex_stream_of [ex_unknown]\<rparr> =
     ((Some (UnknownResponse ex_unknown), True, None),
      \<lparr>readProvidersResponseIter.iter = ex_stream_of []\<rparr>)"
  by (simp add: readProviders_Next_def readProvidersResponseIter_Next_def ex_stream_def
      ex_stream_of_Next ex_schemas ex_unmarshal_values)

text \<open>
  Claim C4, at the input where the code departs from it.  The stream holds a bitswap
  envelope whose payload does not decode, then a bitswap envelope whose payload does.
  The first pull returns the decode error with \<open>hasMore = false\<close>; the error is not
  terminal, for the second pull decodes the next envelope into the bitswap variant and
  returns it with \<open>hasMore = true\<close>.
\<close>

theorem malformed_payload_error_then_bitswap_record:
  "Schema ex_bitswap_bad = SchemaBitswap \<and>
   ex_unmarshal (Bytes ex_bitswap_bad) = Inl (ErrorString ''invalid peer id'') \<and>
   readProviders_Next ex_unmarshal None
     \<lparr>readProvidersResponseIter.iter = ex_stream_of [ex_bitswap_bad, ex_bitswap_ok]\<rparr> =
     ((None, False, Some (ErrorString ''invalid peer id'')),
      \<lparr>readProvidersResponseIter.iter = ex_stream_of [ex_bitswap_ok]\<rparr>) \<and>
   \<not> done_flag (ex_stream_of [ex_bitswap_ok]) \<and>
   readProviders_Next ex_unmarshal None
     \<lparr>readProvidersResponseIter.iter = ex_stream_of [ex_bitswap_ok]\<rparr> =
     ((Some (ReadBitswap ex_read_record), True, None),
      \<lparr>readProvidersResponseIter.iter = ex_stream_of []\<rparr>)"
  by (simp add: readProviders_Next_def readProvidersResponseIter_Next_def
      ex_stream_of_Next ex_schemas ex_unmarshal_values)
    (simp add: ex_stream_of_def)

end
